theory Spec2Isabelle
  imports Main "HOL-Library.Sublist"
begin

section \<open>The artifact loader of sagemaker-containers: \<^verbatim>\<open>_modules.py\<close>\<close>

text \<open>
  This theory embeds \<^verbatim>\<open>src/sagemaker_containers/_modules.py\<close>. A Python function that
  reads or changes the process (the environment, the file system, child processes) becomes
  a function from a \<open>world\<close> to a result and the world it leaves: an exception does not
  undo the effects that came before it, so the world is returned on both paths.

  The module calls libraries that are not part of the repository (urllib, boto3, tarfile,
  shlex, textwrap, importlib, subprocess). What they compute is taken as a parameter, the
  record \<open>lib\<close>. Their own failures (a network error, a full disk) are not modelled: the
  exceptions of the model are the ones the module raises itself, the outcome of an
  in-process import, on which the module branches, the refusal of a name or value by
  \<^verbatim>\<open>os.environ\<close>, and the refusal of a write into a directory that does not exist.
  \<^verbatim>\<open>_logging.log_script_invocation\<close> is a function of the repository that is not among
  the source files and that the specification does not describe: what it does to
  \<^verbatim>\<open>os.environ\<close> while it logs is a parameter too.
\<close>

subsection \<open>Exceptions\<close>

text \<open>
  \<open>ImportError\<close> and \<open>ModuleNotFoundError\<close> are Python's built-in import failures (the
  second is a subclass of the first). \<open>SystemExit\<close> and \<open>KeyboardInterrupt\<close> derive from
  \<open>BaseException\<close> only; every other constructor is a subclass of \<open>Exception\<close>.
  \<open>OtherException\<close> stands for any further subclass of \<open>Exception\<close> that imported code
  raises. \<open>FileNotFoundError\<close> (an \<open>IOError\<close> in Python 2) is what opening a file for
  writing raises when its directory does not exist; it holds the path. The last three are
  the classes of \<^verbatim>\<open>_errors\<close>, with the arguments the module gives them (\<open>return_code\<close>
  and \<open>cmd\<close>, or the wrapped exception).
\<close>

datatype exception =
    ValueError string
  | RuntimeError string
  | ImportError string
  | ModuleNotFoundError string
  | OtherException string
  | FileNotFoundError string
  | SystemExit int
  | KeyboardInterrupt
  | InstallModuleError int string
  | ExecuteUserScriptError int string
  | ImportModuleError exception

text \<open>\<^verbatim>\<open>except ImportError\<close>: the class and its subclasses.\<close>

fun is_ImportError :: "exception \<Rightarrow> bool" where
  "is_ImportError (ImportError m) = True"
| "is_ImportError (ModuleNotFoundError m) = True"
| "is_ImportError e = False"

text \<open>\<^verbatim>\<open>except Exception\<close>: everything but the exceptions that derive from
  \<open>BaseException\<close> alone.\<close>

fun is_Exception :: "exception \<Rightarrow> bool" where
  "is_Exception (SystemExit c) = False"
| "is_Exception KeyboardInterrupt = False"
| "is_Exception e = True"

subsection \<open>The process and its collaborators\<close>

text \<open>A \<^verbatim>\<open>subprocess.Popen\<close> object: the command, the working directory and the
  environment it was created with, and the return code once it has been waited for.\<close>

record popen =
  p_args :: "string list"
  p_cwd :: "string option"
  p_env :: "string \<rightharpoonup> string"
  returncode :: "int option"

text \<open>
  What the module does to the outside, in the order it does it. The three \<open>Call\<close> events
  record that a stage of the pipeline was entered, with its arguments.
\<close>

datatype event =
    Call_s3_download string string
  | Call_prepare string string
  | Call_install string
  | Download_file "string option" string string string
  | Logger_info string
  | Log_script_invocation "string list" "(string \<times> string) list"
  | Spawn popen

record world =
  environ :: "string \<rightharpoonup> string"
  files :: "string \<rightharpoonup> string"
  dirs :: "string set"
  executable :: string
  trace :: "event list"

text \<open>The part of \<^verbatim>\<open>urlparse\<close>'s result that the module reads.\<close>

record parse_result =
  url_scheme :: string
  url_netloc :: string
  url_path :: string

datatype pymodule = Module string

record lib =
  urlparse :: "string \<Rightarrow> parse_result"
  url_str :: "parse_result \<Rightarrow> string"
  download_file :: "string option \<Rightarrow> string \<Rightarrow> string \<Rightarrow> string"
  extractall :: "string \<Rightarrow> (string \<times> string) list"
  mkdtemp :: "world \<Rightarrow> string"
  shlex_split :: "string \<Rightarrow> string list"
  dedent :: "string \<Rightarrow> string"
  importlib_import_module :: "world \<Rightarrow> string \<Rightarrow> exception + pymodule"
  reload_module :: "world \<Rightarrow> pymodule \<Rightarrow> exception + pymodule"
  process_wait :: "world \<Rightarrow> popen \<Rightarrow> int"
  log_script_invocation ::
    "string list \<Rightarrow> (string \<times> string) list \<Rightarrow> (string \<rightharpoonup> string) \<Rightarrow> (string \<rightharpoonup> string)"
  REGION_NAME_ENV :: string

type_synonym 'a result = "(exception + 'a) \<times> world"

text \<open>Sequencing: an exception skips the rest and keeps the world reached so far.\<close>

definition and_then :: "'a result \<Rightarrow> ('a \<Rightarrow> world \<Rightarrow> 'b result) \<Rightarrow> 'b result" where
  "and_then r f = (case r of (Inl e, w) \<Rightarrow> (Inl e, w) | (Inr x, w) \<Rightarrow> f x w)"

definition emit :: "event \<Rightarrow> world \<Rightarrow> world" where
  "emit e w = w\<lparr>trace := trace w @ [e]\<rparr>"

definition DEFAULT_MODULE_NAME :: string where
  "DEFAULT_MODULE_NAME = ''default_user_module_name''"

subsection \<open>Strings and paths\<close>

text \<open>
  \<^verbatim>\<open>str.replace(old, new)\<close>: every occurrence of \<open>old\<close>, leftmost first and without
  overlap; with an empty \<open>old\<close>, \<open>new\<close> goes before every character and at the end.
\<close>

function (sequential) str_replace :: "string \<Rightarrow> string \<Rightarrow> string \<Rightarrow> string" where
  "str_replace [] old new = (if old = [] then new else [])"
| "str_replace (c # cs) old new =
     (if old = [] then new @ concat (map (\<lambda>x. x # new) (c # cs))
      else if prefix old (c # cs) then new @ str_replace (drop (length old) (c # cs)) old new
      else c # str_replace cs old new)"
  by pat_completeness auto
termination
  by (relation "measure (\<lambda>(s, old, new). length s)") auto

text \<open>\<^verbatim>\<open>' '.join(cmd)\<close>.\<close>

fun str_join :: "string \<Rightarrow> string list \<Rightarrow> string" where
  "str_join sep [] = []"
| "str_join sep [x] = x"
| "str_join sep (x # y # ys) = x @ sep @ str_join sep (y # ys)"

text \<open>\<^verbatim>\<open>os.path.join(a, b)\<close> of posixpath.\<close>

definition os_path_join :: "string \<Rightarrow> string \<Rightarrow> string" where
  "os_path_join a b =
     (if prefix ''/'' b then b
      else if a = [] \<or> suffix ''/'' a then a @ b
      else a @ ''/'' @ b)"

definition os_path_exists :: "world \<Rightarrow> string \<Rightarrow> bool" where
  "os_path_exists w p = (p \<in> dom (files w) \<or> p \<in> dirs w)"

text \<open>\<^verbatim>\<open>os.path.dirname(p)\<close> of posixpath: what stands before the last \<open>/\<close>, without
  its trailing separators unless it is made of separators only.\<close>

definition os_path_dirname :: "string \<Rightarrow> string" where
  "os_path_dirname p =
     (let head = rev (dropWhile (\<lambda>c. c \<noteq> CHR ''/'') (rev p))
      in if dropWhile (\<lambda>c. c = CHR ''/'') head = [] then head
         else rev (dropWhile (\<lambda>c. c = CHR ''/'') (rev head)))"

text \<open>The file \<open>p\<close> with the content \<open>data\<close>, created or replaced: what a write that
  succeeds leaves.\<close>

definition put_file :: "string \<Rightarrow> string \<Rightarrow> world \<Rightarrow> world" where
  "put_file p data w = w\<lparr>files := (files w)(p \<mapsto> data)\<rparr>"

text \<open>A file can be created at \<open>p\<close> when the directory of \<open>p\<close> exists; a path with no
  directory part lies in the working directory.\<close>

definition parent_exists :: "world \<Rightarrow> string \<Rightarrow> bool" where
  "parent_exists w p = (os_path_dirname p = [] \<or> os_path_dirname p \<in> dirs w)"

text \<open>Modelled from the spec: \<^verbatim>\<open>_files.write_file\<close> is not among the source files;
  it is the file-system collaborator's write of \<open>data\<close> at \<open>p\<close>, creating the file or
  replacing its content. The specification has a missing path surface as a failure of the
  stage that first uses it (4.1) and a failed write end the call (4.2): the write is
  refused when the directory of \<open>p\<close> does not exist, as Python's \<^verbatim>\<open>open(p, 'w')\<close> does,
  and changes nothing then.\<close>

definition write_file :: "string \<Rightarrow> string \<Rightarrow> world \<Rightarrow> unit result" where
  "write_file p data w =
     (if parent_exists w p then (Inr (), put_file p data w)
      else (Inl (FileNotFoundError p), w))"

definition under :: "string \<Rightarrow> string \<Rightarrow> bool" where
  "under d p = (p = d \<or> prefix (d @ ''/'') p)"

text \<open>Modelled from the spec: \<^verbatim>\<open>_files.tmpdir\<close> is not among the source files; it is the
  scoped temporary directory of the spec: a fresh directory on entry, removed with all
  it holds when the \<^verbatim>\<open>with\<close> block is left, normally or by an exception.\<close>

definition tmpdir_enter :: "lib \<Rightarrow> world \<Rightarrow> string \<times> world" where
  "tmpdir_enter L w = (mkdtemp L w, w\<lparr>dirs := insert (mkdtemp L w) (dirs w)\<rparr>)"

definition tmpdir_exit :: "string \<Rightarrow> world \<Rightarrow> world" where
  "tmpdir_exit d w =
     w\<lparr>files := (\<lambda>p. if under d p then None else files w p),
       dirs := Set.filter (\<lambda>p. \<not> under d p) (dirs w)\<rparr>"

text \<open>\<^verbatim>\<open>os.makedirs(p)\<close>, and \<^verbatim>\<open>tarfile.extractall(path=p)\<close> on the members the
  archive holds.\<close>

definition os_makedirs :: "string \<Rightarrow> world \<Rightarrow> world" where
  "os_makedirs p w = w\<lparr>dirs := insert p (dirs w)\<rparr>"

fun extract_members :: "string \<Rightarrow> (string \<times> string) list \<Rightarrow> world \<Rightarrow> world" where
  "extract_members p [] w = w"
| "extract_members p ((member, data) # ms) w =
     extract_members p ms (put_file (os_path_join p member) data w)"

subsection \<open>The file templates of \<^verbatim>\<open>prepare\<close>\<close>

text \<open>The three triple-quoted literals as they stand in the source (eight spaces of
  indentation, the module name already substituted), before \<^verbatim>\<open>textwrap.dedent\<close>.\<close>

definition setup_py_template :: "string \<Rightarrow> string" where
  \<open>setup_py_template name =
     ''\<newline>        from setuptools import setup\<newline>\<newline>        setup(packages=['' @ [CHR 0x27, CHR 0x27] @
     ''],\<newline>              name="'' @ name @
     ''",\<newline>              version='1.0.0',\<newline>              include_package_data=True)\<newline>        ''\<close>

definition setup_cfg_template :: string where
  "setup_cfg_template = ''\<newline>        [wheel]\<newline>        universal = 1\<newline>        ''"

definition manifest_template :: string where
  "manifest_template =
     ''\<newline>        recursive-include . *\<newline>\<newline>        recursive-exclude . __pycache__*\<newline>        recursive-exclude . *.pyc\<newline>        recursive-exclude . *.pyo\<newline>        ''"

subsection \<open>The operations of the module\<close>

text \<open>\<^verbatim>\<open>s3_download(url, dst)\<close>. The region is
  \<^verbatim>\<open>os.environ.get('AWS_REGION', os.environ.get(_params.REGION_NAME_ENV))\<close>.\<close>

definition s3_download :: "lib \<Rightarrow> string \<Rightarrow> string \<Rightarrow> world \<Rightarrow> unit result" where
  "s3_download L url dst w0 =
     (let w = emit (Call_s3_download url dst) w0;
          u = urlparse L url
      in if url_scheme u \<noteq> ''s3'' then
           (Inl (ValueError (''Expecting 's3' scheme, got: '' @ url_scheme u @ '' in '' @ url_str L u)), w)
         else
           let bucket = url_netloc u;
               key = dropWhile (\<lambda>c. c = CHR ''/'') (url_path u);
               region = (case environ w ''AWS_REGION'' of
                           Some r \<Rightarrow> Some r
                         | None \<Rightarrow> environ w (REGION_NAME_ENV L));
               w1 = emit (Download_file region bucket key dst) w
           in (Inr (), put_file dst (download_file L region bucket key) w1))"

text \<open>\<^verbatim>\<open>prepare(path, name)\<close>. A write that is refused ends it: what would have come
  after is not done.\<close>

definition prepare :: "lib \<Rightarrow> string \<Rightarrow> string \<Rightarrow> world \<Rightarrow> unit result" where
  "prepare L path name w0 =
     (let w = emit (Call_prepare path name) w0;
          setup_path = os_path_join path ''setup.py''
      in if \<not> os_path_exists w setup_path then
           let w1 = emit (Logger_info (''Module '' @ name @
                      '' does not provide a setup.py. \<newline>Generating setup.py'')) w
           in and_then (write_file setup_path (dedent L (setup_py_template name)) w1) (\<lambda>u w2.
                let w3 = emit (Logger_info ''Generating setup.cfg'') w2
                in and_then (write_file (os_path_join path ''setup.cfg'')
                               (dedent L setup_cfg_template) w3) (\<lambda>u w4.
                     let w5 = emit (Logger_info ''Generating MANIFEST.in'') w4
                     in write_file (os_path_join path ''MANIFEST.in'')
                          (dedent L manifest_template) w5))
         else (Inr (), w))"

text \<open>\<^verbatim>\<open>python_executable()\<close>: \<^verbatim>\<open>sys.executable\<close>, or RuntimeError when it is empty.\<close>

definition python_executable :: "world \<Rightarrow> string result" where
  "python_executable w =
     (if executable w = [] then
        (Inl (RuntimeError ''Failed to retrieve the real path for the Python executable binary''), w)
      else (Inr (executable w), w))"

text \<open>\<^verbatim>\<open>_make_process(cmd, **kwargs)\<close>: \<^verbatim>\<open>subprocess.Popen(cmd, env=os.environ, **kwargs)\<close>;
  the only keyword the module ever passes is \<open>cwd\<close>.\<close>

definition make_process :: "string list \<Rightarrow> string option \<Rightarrow> world \<Rightarrow> popen result" where
  "make_process cmd cwd w =
     (let process = \<lparr>p_args = cmd, p_cwd = cwd, p_env = environ w, returncode = None\<rparr>
      in (Inr process, emit (Spawn process) w))"

text \<open>\<^verbatim>\<open>_check_error(cmd, error_class, **kwargs)\<close>. The child is taken to exit:
  \<open>process_wait\<close> gives its return code.\<close>

definition check_error ::
  "lib \<Rightarrow> string list \<Rightarrow> (int \<Rightarrow> string \<Rightarrow> exception) \<Rightarrow> string option \<Rightarrow> world \<Rightarrow> popen result" where
  "check_error L cmd error_class cwd w =
     and_then (make_process cmd cwd w) (\<lambda>process w1.
       let return_code = process_wait L w1 process
       in if return_code \<noteq> 0 then (Inl (error_class return_code (str_join '' '' cmd)), w1)
          else (Inr (process\<lparr>returncode := Some return_code\<rparr>), w1))"

text \<open>\<^verbatim>\<open>install(path)\<close>.\<close>

definition install :: "lib \<Rightarrow> string \<Rightarrow> world \<Rightarrow> unit result" where
  "install L path w0 =
     (let w = emit (Call_install path) w0
      in if executable w = [] then
           (Inl (RuntimeError ''Failed to retrieve the real path for the Python executable binary''), w)
         else
           and_then (python_executable w) (\<lambda>exe w1.
             let cmd = exe @ '' -m pip install -U . '';
                 cmd = (if os_path_exists w1 (os_path_join path ''requirements.txt'')
                        then cmd @ ''-r requirements.txt'' else cmd);
                 w2 = emit (Logger_info (''Installing module with the following command:\<newline>'' @ cmd)) w1
             in and_then (check_error L (shlex_split L cmd) InstallModuleError (Some path) w2)
                  (\<lambda>process w3. (Inr (), w3))))"

text \<open>\<^verbatim>\<open>exists(name)\<close>: the import is tried; only an ImportError means "not there".\<close>

definition exists :: "lib \<Rightarrow> string \<Rightarrow> world \<Rightarrow> bool result" where
  "exists L name w =
     (case importlib_import_module L w name of
        Inl e \<Rightarrow> if is_ImportError e then (Inr False, w) else (Inl e, w)
      | Inr m \<Rightarrow> (Inr True, w))"

text \<open>
  \<^verbatim>\<open>download_and_install(uri, name, cache)\<close>. \<^verbatim>\<open>cache and exists(name)\<close> does not
  call \<open>exists\<close> when \<open>cache\<close> is false. In the source the \<^verbatim>\<open>with _files.tmpdir()\<close>
  block holds the download and the extraction only: it is left, and the temporary directory
  removed, before \<open>prepare\<close> and \<open>install\<close> run.
\<close>

definition download_and_install :: "lib \<Rightarrow> string \<Rightarrow> string \<Rightarrow> bool \<Rightarrow> world \<Rightarrow> unit result" where
  "download_and_install L uri name cache w =
     and_then (if cache then exists L name w else (Inr False, w)) (\<lambda>should_use_cache w1.
       if \<not> should_use_cache then
         and_then
           (if prefix ''s3://'' uri then
              (case tmpdir_enter L w1 of (tmpdir, wa) \<Rightarrow>
                 let dst = os_path_join tmpdir ''tar_file'';
                     r = and_then (s3_download L uri dst wa) (\<lambda>u wb.
                           let module_path = os_path_join tmpdir ''module_dir'';
                               wc = os_makedirs module_path wb;
                               members = (case files wc dst of
                                            Some tar \<Rightarrow> extractall L tar
                                          | None \<Rightarrow> [])
                           in (Inr module_path, extract_members module_path members wc))
                 in (fst r, tmpdir_exit tmpdir (snd r)))
            else (Inr (str_replace uri ''file://'' []), w1))
           (\<lambda>module_path w2.
              and_then (prepare L module_path name w2) (\<lambda>u w3. install L module_path w3))
       else (Inr (), w1))"

text \<open>\<^verbatim>\<open>run(module_name, args, env_vars, wait)\<close>. \<open>None\<close> is the default of \<open>args\<close> and
  of \<open>env_vars\<close>; a dict is the list of its items, in iteration order. The call of
  \<^verbatim>\<open>_logging.log_script_invocation(cmd, env_vars)\<close> is recorded in the trace and leaves
  the environment that the parameter \<open>log_script_invocation\<close> gives; the child is created
  after it.\<close>

definition run ::
  "lib \<Rightarrow> string \<Rightarrow> string list option \<Rightarrow> (string \<times> string) list option \<Rightarrow> bool \<Rightarrow> world \<Rightarrow> popen result" where
  "run L module_name args env_vars wait w =
     (let args1 = (case args of None \<Rightarrow> [] | Some a \<Rightarrow> a);
          env_vars1 = (case env_vars of None \<Rightarrow> [] | Some e \<Rightarrow> e)
      in and_then (python_executable w) (\<lambda>exe w1.
           let cmd = [exe, ''-m'', module_name] @ args1;
               w2 = (emit (Log_script_invocation cmd env_vars1) w1)
                      \<lparr>environ := log_script_invocation L cmd env_vars1 (environ w1)\<rparr>
           in if wait then check_error L cmd ExecuteUserScriptError None w2
              else make_process cmd None w2))"

text \<open>\<^verbatim>\<open>import_module(uri, name, cache)\<close>: \<^verbatim>\<open>except Exception as e\<close> wraps what it
  catches in ImportModuleError.\<close>

definition import_module :: "lib \<Rightarrow> string \<Rightarrow> string \<Rightarrow> bool \<Rightarrow> world \<Rightarrow> pymodule result" where
  "import_module L uri name cache w =
     and_then (download_and_install L uri name cache w) (\<lambda>u w1.
       case (case importlib_import_module L w1 name of
               Inl e \<Rightarrow> Inl e
             | Inr m \<Rightarrow> (case reload_module L w1 m of Inl e \<Rightarrow> Inl e | Inr m' \<Rightarrow> Inr m)) of
         Inr m \<Rightarrow> (Inr m, w1)
       | Inl e \<Rightarrow> if is_Exception e then (Inl (ImportModuleError e), w1) else (Inl e, w1))"


definition environ_setitem :: "string \<Rightarrow> string \<Rightarrow> world \<Rightarrow> unit result" where
  "environ_setitem name val w =
     (if CHR 0x00 \<in> set name \<or> CHR 0x00 \<in> set val then
        (Inl (ValueError ''embedded null byte''), w)
      else if name = [] \<or> CHR ''='' \<in> set name then
        (Inl (ValueError ''illegal environment variable name''), w)
      else (Inr (), w\<lparr>environ := (environ w)(name \<mapsto> val)\<rparr>))"




subsection \<open>What a run leaves behind\<close>

text \<open>The stages entered, and the child processes created, in order.\<close>

fun is_stage_call :: "event \<Rightarrow> bool" where
  "is_stage_call (Call_s3_download url dst) = True"
| "is_stage_call (Call_prepare path name) = True"
| "is_stage_call (Call_install path) = True"
| "is_stage_call e = False"

definition stage_calls :: "world \<Rightarrow> event list" where
  "stage_calls w = filter is_stage_call (trace w)"

fun spawned_in :: "event list \<Rightarrow> popen list" where
  "spawned_in [] = []"
| "spawned_in (Spawn p # es) = p # spawned_in es"
| "spawned_in (e # es) = spawned_in es"

definition spawned :: "world \<Rightarrow> popen list" where
  "spawned w = spawned_in (trace w)"

text \<open>The files a step created: the paths that hold a file after it and held none before.\<close>

definition new_files :: "world \<Rightarrow> world \<Rightarrow> string set" where
  "new_files w w' = dom (files w') - dom (files w)"

subsection \<open>A concrete process, for evaluating the operations\<close>

text \<open>
  A collaborator record and a world to run the operations on. The URL parser knows the
  two shapes used below; the object store holds one archive with one script; the module
  \<open>my_test_script\<close> can be imported once an installer has run, \<open>numpy\<close> always, and two
  modules fail in their own top-level code: \<open>broken_script\<close> raises ValueError (the
  script of the repository's functional test) and \<open>exiting_script\<close> calls
  \<^verbatim>\<open>sys.exit(2)\<close>. A command that names \<open>failing_script\<close> exits with code 3, a command
  run in the directory \<open>/opt/ml/broken_package\<close> with code 1, every other one with 0.
  The logging call of the example sets three variables of its own, \<open>CURRENT_HOST\<close>,
  \<open>SAGEMAKER_JOB_NAME\<close> and \<open>SAGEMAKER_REGION\<close>.
\<close>

definition example_urlparse :: "string \<Rightarrow> parse_result" where
  "example_urlparse u =
     (if prefix ''s3://'' u then
        \<lparr>url_scheme = ''s3'',
         url_netloc = takeWhile (\<lambda>c. c \<noteq> CHR ''/'') (drop 5 u),
         url_path = dropWhile (\<lambda>c. c \<noteq> CHR ''/'') (drop 5 u)\<rparr>
      else if prefix ''http://'' u then
        \<lparr>url_scheme = ''http'',
         url_netloc = takeWhile (\<lambda>c. c \<noteq> CHR ''/'') (drop 7 u),
         url_path = dropWhile (\<lambda>c. c \<noteq> CHR ''/'') (drop 7 u)\<rparr>
      else \<lparr>url_scheme = [], url_netloc = [], url_path = u\<rparr>)"

fun split_spaces :: "string \<Rightarrow> string \<Rightarrow> string list" where
  "split_spaces acc [] = (if acc = [] then [] else [acc])"
| "split_spaces acc (c # cs) =
     (if c = CHR '' '' then (if acc = [] then split_spaces [] cs else acc # split_spaces [] cs)
      else split_spaces (acc @ [c]) cs)"

definition example_import :: "world \<Rightarrow> string \<Rightarrow> exception + pymodule" where
  "example_import w name =
     (if name = ''numpy'' then Inr (Module name)
      else if name = ''broken_script'' then Inl (ValueError ''this script does not work'')
      else if name = ''exiting_script'' then Inl (SystemExit 2)
      else if name = ''my_test_script'' \<and> spawned w \<noteq> [] then Inr (Module name)
      else Inl (ModuleNotFoundError (''No module named '' @ name)))"

definition example_lib :: lib where
  "example_lib =
     \<lparr>urlparse = example_urlparse,
      url_str = (\<lambda>u. url_scheme u @ ''://'' @ url_netloc u @ url_path u),
      download_file = (\<lambda>region bucket key. ''tar-bytes''),
      extractall = (\<lambda>tar. [(''my_test_script.py'', ''def validate(): return True'')]),
      mkdtemp = (\<lambda>w. ''/tmp/tmp0''),
      shlex_split = split_spaces [],
      dedent = (\<lambda>s. s),
      importlib_import_module = example_import,
      reload_module = (\<lambda>w m. Inr m),
      process_wait = (\<lambda>w p. if ''failing_script'' \<in> set (p_args p) then 3
                             else if p_cwd p = Some ''/opt/ml/broken_package'' then 1 else 0),
      log_script_invocation =
        (\<lambda>cmd env_vars env. env(''CURRENT_HOST'' \<mapsto> ''algo-1'',
                                ''SAGEMAKER_JOB_NAME'' \<mapsto> ''training-job'',
                                ''SAGEMAKER_REGION'' \<mapsto> ''us-west-2'')),
      REGION_NAME_ENV = ''SAGEMAKER_REGION''\<rparr>"

definition example_world :: world where
  "example_world =
     \<lparr>environ = [''PATH'' \<mapsto> ''/usr/bin''],
      files = [''/opt/ml/code/my_test_script.py'' \<mapsto> ''def validate(): return True''],
      dirs = {''/opt/ml/code''},
      executable = ''/usr/bin/python'',
      trace = []\<rparr>"

section \<open>Basic facts about the operations\<close>

text \<open>How each primitive step changes the fields of the world, and what each operation
  leaves in the trace. The theorems of the next section are put together from these.\<close>

lemma emit_simps:
  "trace (emit e w) = trace w @ [e]" "environ (emit e w) = environ w"
  "files (emit e w) = files w" "dirs (emit e w) = dirs w" "executable (emit e w) = executable w"
  by (simp_all add: emit_def)

lemma put_file_simps:
  "trace (put_file p d w) = trace w" "environ (put_file p d w) = environ w"
  "files (put_file p d w) = (files w)(p \<mapsto> d)" "dirs (put_file p d w) = dirs w"
  "executable (put_file p d w) = executable w"
  by (simp_all add: put_file_def)

lemma parent_exists_simps:
  "parent_exists (emit e w) p = parent_exists w p"
  "parent_exists (put_file q d w) p = parent_exists w p"
  by (simp_all add: parent_exists_def emit_def put_file_def)

lemma write_file_simps:
  "parent_exists w p \<Longrightarrow> write_file p d w = (Inr (), put_file p d w)"
  "\<not> parent_exists w p \<Longrightarrow> write_file p d w = (Inl (FileNotFoundError p), w)"
  by (simp_all add: write_file_def)

lemma snd_write_file:
  "trace (snd (write_file p d w)) = trace w" "environ (snd (write_file p d w)) = environ w"
  "dirs (snd (write_file p d w)) = dirs w" "executable (snd (write_file p d w)) = executable w"
  by (simp_all add: write_file_def put_file_simps)

lemma os_path_exists_emit: "os_path_exists (emit e w) p = os_path_exists w p"
  by (simp add: os_path_exists_def emit_simps)

lemma spawned_in_append: "spawned_in (xs @ ys) = spawned_in xs @ spawned_in ys"
  by (induction xs rule: spawned_in.induct) simp_all

lemma spawned_emit:
  "spawned (emit e w) = spawned w @ (case e of Spawn p \<Rightarrow> [p] | _ \<Rightarrow> [])"
  by (cases e) (simp_all add: spawned_def emit_simps spawned_in_append)

lemma spawned_put_file: "spawned (put_file p d w) = spawned w"
  by (simp add: spawned_def put_file_simps)

lemma stage_calls_emit:
  "stage_calls (emit e w) = stage_calls w @ (if is_stage_call e then [e] else [])"
  by (simp add: stage_calls_def emit_simps)

lemma stage_calls_put_file: "stage_calls (put_file p d w) = stage_calls w"
  by (simp add: stage_calls_def put_file_simps)

lemma and_then_simps:
  "and_then (Inr x, w) f = f x w" "and_then (Inl e, w) f = (Inl e, w)"
  by (simp_all add: and_then_def)


lemma spawned_environ_update: "spawned (w\<lparr>environ := env\<rparr>) = spawned w"
  by (simp add: spawned_def)

lemma snd_check_error:
  "snd (check_error L cmd error_class cwd w) =
     emit (Spawn \<lparr>p_args = cmd, p_cwd = cwd, p_env = environ w, returncode = None\<rparr>) w"
  by (simp add: check_error_def make_process_def and_then_def Let_def)

lemma snd_install:
  "executable w \<noteq> [] \<Longrightarrow>
     snd (install L path w) =
       (let cmdline = executable w @ '' -m pip install -U . '' @
                        (if os_path_exists w (os_path_join path ''requirements.txt'')
                         then ''-r requirements.txt'' else [])
        in emit (Spawn \<lparr>p_args = shlex_split L cmdline, p_cwd = Some path,
                         p_env = environ w, returncode = None\<rparr>)
             (emit (Logger_info (''Installing module with the following command:\<newline>'' @ cmdline))
                (emit (Call_install path) w)))"
  by (simp add: install_def python_executable_def check_error_def make_process_def and_then_def
        Let_def emit_simps os_path_exists_emit)

lemma requirements_suffix:
  "\<not> suffix ''-r requirements.txt'' (exe @ '' -m pip install -U . '')"
  by (simp add: suffix_to_prefix)

lemma requirements_suffix_present:
  "suffix ''-r requirements.txt'' (exe @ '' -m pip install -U . -r requirements.txt'')"
  by (simp add: suffix_to_prefix)

lemma os_path_join_inject:
  "\<not> prefix ''/'' b \<Longrightarrow> \<not> prefix ''/'' c \<Longrightarrow> os_path_join a b = os_path_join a c \<longleftrightarrow> b = c"
  by (simp add: os_path_join_def)

lemma prepare_paths_distinct:
  "os_path_join path ''setup.py'' \<noteq> os_path_join path ''setup.cfg''"
  "os_path_join path ''setup.py'' \<noteq> os_path_join path ''MANIFEST.in''"
  "os_path_join path ''setup.cfg'' \<noteq> os_path_join path ''MANIFEST.in''"
  by (simp_all add: os_path_join_inject)

lemma prepare_present:
  "os_path_exists w (os_path_join path ''setup.py'') \<Longrightarrow>
     prepare L path name w = (Inr (), emit (Call_prepare path name) w)"
  by (simp add: prepare_def Let_def os_path_exists_emit)

text \<open>The directory of a path joined to \<open>a\<close> does not depend on the file name, and is
  \<open>a\<close> itself when \<open>a\<close> is written without a trailing separator.\<close>

lemma os_path_dirname_append:
  assumes "CHR ''/'' \<notin> set b"
  shows "os_path_dirname (a @ b) = os_path_dirname a"
proof -
  have "\<And>x. x \<in> set (rev b) \<Longrightarrow> x \<noteq> CHR ''/''"
    using assms by auto
  then have "dropWhile (\<lambda>c. c \<noteq> CHR ''/'') (rev b @ rev a) =
             dropWhile (\<lambda>c. c \<noteq> CHR ''/'') (rev a)"
    by (rule dropWhile_append2)
  then have "dropWhile (\<lambda>c. c \<noteq> CHR ''/'') (rev (a @ b)) =
             dropWhile (\<lambda>c. c \<noteq> CHR ''/'') (rev a)"
    by simp
  then show ?thesis
    by (simp only: os_path_dirname_def)
qed

lemma os_path_dirname_join_any:
  assumes "CHR ''/'' \<notin> set b" and "CHR ''/'' \<notin> set c"
  shows "os_path_dirname (os_path_join a b) = os_path_dirname (os_path_join a c)"
proof -
  have p: "\<not> prefix ''/'' b" "\<not> prefix ''/'' c"
    using assms by (auto simp add: prefix_def)
  have j: "os_path_join a b = (if a = [] \<or> suffix ''/'' a then a else a @ ''/'') @ b"
       "os_path_join a c = (if a = [] \<or> suffix ''/'' a then a else a @ ''/'') @ c"
    using p by (simp_all add: os_path_join_def)
  show ?thesis
    unfolding j
    using os_path_dirname_append [OF assms(1)] os_path_dirname_append [OF assms(2)] by simp
qed

lemma os_path_dirname_join:
  assumes "a \<noteq> []" and "last a \<noteq> CHR ''/''" and "CHR ''/'' \<notin> set b"
  shows "os_path_dirname (os_path_join a b) = a"
proof -
  have ns: "\<not> suffix ''/'' a"
    using assms(1,2) by (auto simp add: suffix_def)
  have p: "\<not> prefix ''/'' b"
    using assms(3) by (auto simp add: prefix_def)
  have j: "os_path_join a b = (a @ ''/'') @ b"
    using assms(1) ns p by (simp add: os_path_join_def)
  from assms(1) obtain xs x where a: "a = xs @ [x]"
    by (cases a rule: rev_cases) auto
  have x: "x \<noteq> CHR ''/''"
    using assms(2) a by simp
  have d: "os_path_dirname (a @ ''/'') = a"
    using x by (simp add: a os_path_dirname_def dropWhile_eq_Nil_conv)
  show ?thesis
    unfolding j using os_path_dirname_append [OF assms(3), of "a @ ''/''"] d by simp
qed

lemma prepare_parents:
  "parent_exists w (os_path_join path ''setup.cfg'') = parent_exists w (os_path_join path ''setup.py'')"
  "parent_exists w (os_path_join path ''MANIFEST.in'') = parent_exists w (os_path_join path ''setup.py'')"
  using os_path_dirname_join_any [of "''setup.cfg''" "''setup.py''" path]
    os_path_dirname_join_any [of "''MANIFEST.in''" "''setup.py''" path]
  by (simp_all add: parent_exists_def)

lemma prepare_absent:
  "\<not> os_path_exists w (os_path_join path ''setup.py'') \<Longrightarrow>
   parent_exists w (os_path_join path ''setup.py'') \<Longrightarrow>
     fst (prepare L path name w) = Inr () \<and>
     files (snd (prepare L path name w)) =
       (files w)(os_path_join path ''setup.py'' \<mapsto> dedent L (setup_py_template name),
                 os_path_join path ''setup.cfg'' \<mapsto> dedent L setup_cfg_template,
                 os_path_join path ''MANIFEST.in'' \<mapsto> dedent L manifest_template) \<and>
     dirs (snd (prepare L path name w)) = dirs w \<and>
     environ (snd (prepare L path name w)) = environ w"
  by (simp add: prepare_def Let_def os_path_exists_emit emit_simps put_file_simps
        and_then_simps write_file_simps parent_exists_simps prepare_parents)

lemma prepare_refused:
  "\<not> os_path_exists w (os_path_join path ''setup.py'') \<Longrightarrow>
   \<not> parent_exists w (os_path_join path ''setup.py'') \<Longrightarrow>
     prepare L path name w =
       (Inl (FileNotFoundError (os_path_join path ''setup.py'')),
        emit (Logger_info (''Module '' @ name @
                '' does not provide a setup.py. \<newline>Generating setup.py''))
          (emit (Call_prepare path name) w))"
  by (simp add: prepare_def Let_def os_path_exists_emit and_then_simps write_file_simps
        parent_exists_simps)

lemma extract_members_simps:
  "trace (extract_members p ms w) = trace w"
  "environ (extract_members p ms w) = environ w"
  "executable (extract_members p ms w) = executable w"
  by (induction p ms w rule: extract_members.induct) (simp_all add: put_file_simps)

lemma tmpdir_exit_simps:
  "trace (tmpdir_exit d w) = trace w" "environ (tmpdir_exit d w) = environ w"
  "executable (tmpdir_exit d w) = executable w"
  by (simp_all add: tmpdir_exit_def)

lemma os_makedirs_simps:
  "trace (os_makedirs p w) = trace w" "environ (os_makedirs p w) = environ w"
  "executable (os_makedirs p w) = executable w" "files (os_makedirs p w) = files w"
  by (simp_all add: os_makedirs_def)

lemma s3_download_s3:
  "url_scheme (urlparse L url) = ''s3'' \<Longrightarrow>
     fst (s3_download L url dst w) = Inr () \<and>
     stage_calls (snd (s3_download L url dst w)) = stage_calls w @ [Call_s3_download url dst] \<and>
     spawned (snd (s3_download L url dst w)) = spawned w \<and>
     environ (snd (s3_download L url dst w)) = environ w \<and>
     executable (snd (s3_download L url dst w)) = executable w"
  by (simp add: s3_download_def Let_def stage_calls_def spawned_def emit_simps put_file_simps
        spawned_in_append)


lemma s3_download_frame:
  "environ (snd (s3_download L url dst w)) = environ w \<and>
   executable (snd (s3_download L url dst w)) = executable w"
  by (simp add: s3_download_def Let_def emit_simps put_file_simps)

lemma prepare_stage:
  "stage_calls (snd (prepare L path name w)) = stage_calls w @ [Call_prepare path name] \<and>
   spawned (snd (prepare L path name w)) = spawned w \<and>
   environ (snd (prepare L path name w)) = environ w \<and>
   executable (snd (prepare L path name w)) = executable w"
proof (cases "os_path_exists w (os_path_join path ''setup.py'')")
  case True
  then show ?thesis
    by (simp add: prepare_present stage_calls_def spawned_def emit_simps spawned_in_append)
next
  case False
  show ?thesis
  proof (cases "parent_exists w (os_path_join path ''setup.py'')")
    case True
    then show ?thesis
      using False
      by (simp add: prepare_def Let_def os_path_exists_emit and_then_simps write_file_simps
            parent_exists_simps prepare_parents stage_calls_def spawned_def emit_simps
            put_file_simps spawned_in_append)
  next
    case np: False
    show ?thesis
      by (simp add: prepare_refused [OF False np] stage_calls_def spawned_def emit_simps
            spawned_in_append)
  qed
qed

lemma prepare_raises_or_returns:
  "prepare L path name w = (Inr (), snd (prepare L path name w)) \<or>
   prepare L path name w =
     (Inl (FileNotFoundError (os_path_join path ''setup.py'')), snd (prepare L path name w))"
proof (cases "os_path_exists w (os_path_join path ''setup.py'')")
  case True
  then show ?thesis by (simp add: prepare_present)
next
  case False
  show ?thesis
  proof (cases "parent_exists w (os_path_join path ''setup.py'')")
    case True
    then show ?thesis
      using prepare_absent [OF False True, of L name] by (simp add: prod_eq_iff)
  next
    case np: False
    show ?thesis by (simp add: prepare_refused [OF False np])
  qed
qed

lemma install_stage:
  "stage_calls (snd (install L path w)) = stage_calls w @ [Call_install path] \<and>
   length (spawned (snd (install L path w))) =
     length (spawned w) + (if executable w = [] then 0 else 1) \<and>
   environ (snd (install L path w)) = environ w \<and>
   executable (snd (install L path w)) = executable w"
proof (cases "executable w = []")
  case True
  then show ?thesis
    by (simp add: install_def Let_def stage_calls_def spawned_def emit_simps spawned_in_append)
next
  case False
  then show ?thesis
    by (simp add: snd_install Let_def stage_calls_def spawned_def emit_simps spawned_in_append)
qed

lemma exists_world: "snd (exists L name w) = w"
  by (simp add: exists_def split: sum.splits)

lemma prepare_then_install:
  "fst (prepare L p name w) = Inr () \<Longrightarrow>
     and_then (prepare L p name w) (\<lambda>u w3. install L p w3) =
       install L p (snd (prepare L p name w))"
  by (cases "prepare L p name w") (simp add: and_then_def)




lemma download_and_install_miss:
  "fst (exists L name w) = Inr False \<Longrightarrow>
     download_and_install L uri name True w = download_and_install L uri name False w"
  by (auto simp add: download_and_install_def exists_def and_then_def split: sum.splits if_splits)

lemma download_and_install_raise:
  "fst (exists L name w) = Inl e \<Longrightarrow> download_and_install L uri name True w = (Inl e, w)"
  by (auto simp add: download_and_install_def exists_def and_then_def split: sum.splits if_splits)

lemma download_and_install_local:
  "\<not> prefix ''s3://'' uri \<Longrightarrow>
     download_and_install L uri name False w =
       and_then (prepare L (str_replace uri ''file://'' []) name w)
         (\<lambda>u w3. install L (str_replace uri ''file://'' []) w3)"
  by (simp add: download_and_install_def and_then_simps)

lemma download_and_install_s3:
  assumes "prefix ''s3://'' uri" and "url_scheme (urlparse L uri) = ''s3''"
  shows "\<exists>w2. download_and_install L uri name False w =
                 and_then (prepare L (os_path_join (mkdtemp L w) ''module_dir'') name w2)
                   (\<lambda>u w3. install L (os_path_join (mkdtemp L w) ''module_dir'') w3) \<and>
              stage_calls w2 =
                stage_calls w @ [Call_s3_download uri (os_path_join (mkdtemp L w) ''tar_file'')] \<and>
              spawned w2 = spawned w \<and> environ w2 = environ w \<and> executable w2 = executable w \<and>
              (\<forall>p. under (mkdtemp L w) p \<longrightarrow> files w2 p = None \<and> p \<notin> dirs w2)"
proof -
  let ?wa = "w\<lparr>dirs := insert (mkdtemp L w) (dirs w)\<rparr>"
  let ?dst = "os_path_join (mkdtemp L w) ''tar_file''"
  have a: "stage_calls ?wa = stage_calls w" "spawned ?wa = spawned w"
    by (simp_all add: stage_calls_def spawned_def)
  obtain wb where wb: "s3_download L uri ?dst ?wa = (Inr (), wb)"
    using s3_download_s3 [OF assms(2), of ?dst ?wa] by (cases "s3_download L uri ?dst ?wa") auto
  have wbs: "stage_calls wb = stage_calls w @ [Call_s3_download uri ?dst]"
      "spawned wb = spawned w" "environ wb = environ w" "executable wb = executable w"
    using s3_download_s3 [OF assms(2), of ?dst ?wa] wb a by simp_all
  define w2 where
    "w2 = tmpdir_exit (mkdtemp L w)
            (extract_members (os_path_join (mkdtemp L w) ''module_dir'')
               (case files (os_makedirs (os_path_join (mkdtemp L w) ''module_dir'') wb) ?dst of
                  Some tar \<Rightarrow> extractall L tar | None \<Rightarrow> [])
               (os_makedirs (os_path_join (mkdtemp L w) ''module_dir'') wb))"
  have eq: "download_and_install L uri name False w =
              and_then (prepare L (os_path_join (mkdtemp L w) ''module_dir'') name w2)
                (\<lambda>u w3. install L (os_path_join (mkdtemp L w) ''module_dir'') w3)"
    using assms(1) wb
    by (simp add: download_and_install_def and_then_simps tmpdir_enter_def Let_def w2_def)
  have props: "stage_calls w2 = stage_calls w @ [Call_s3_download uri ?dst]"
      "spawned w2 = spawned w" "environ w2 = environ w" "executable w2 = executable w"
    using wbs
    by (simp_all add: w2_def stage_calls_def spawned_def tmpdir_exit_simps
          extract_members_simps os_makedirs_simps)
  have gone: "\<forall>p. under (mkdtemp L w) p \<longrightarrow> files w2 p = None \<and> p \<notin> dirs w2"
    by (simp add: w2_def tmpdir_exit_def)
  show ?thesis
    using eq props gone by blast
qed

text \<open>
  In the source the \<^verbatim>\<open>with _files.tmpdir()\<close> block ends after the extraction, so for an
  s3 uri \<open>prepare\<close> and \<open>install\<close> are called when the temporary directory has been
  removed: no file and no directory lies under it any more, the extracted archive
  included. \<open>prepare\<close> finds no \<^verbatim>\<open>setup.py\<close> there, its first write is refused, and
  \<open>install\<close> is not entered. (The temporary directory is named without a trailing
  separator, as \<^verbatim>\<open>tempfile.mkdtemp\<close> names it.) The local branch calls them on the
  directory it was given.
\<close>

lemma s3_fetch_removed_before_prepare:
  assumes "prefix ''s3://'' uri" and "url_scheme (urlparse L uri) = ''s3''"
  shows "\<exists>w2. download_and_install L uri name False w =
                 and_then (prepare L (os_path_join (mkdtemp L w) ''module_dir'') name w2)
                   (\<lambda>u w3. install L (os_path_join (mkdtemp L w) ''module_dir'') w3) \<and>
              (\<forall>p. under (mkdtemp L w) p \<longrightarrow> files w2 p = None \<and> p \<notin> dirs w2)"
  using download_and_install_s3 [OF assms, of name w] by blast

lemma s3_install_not_entered:
  assumes "prefix ''s3://'' uri" and "url_scheme (urlparse L uri) = ''s3''"
    and "mkdtemp L w \<noteq> []" and "last (mkdtemp L w) \<noteq> CHR ''/''"
  shows "fst (download_and_install L uri name False w) =
           Inl (FileNotFoundError
                  (os_path_join (os_path_join (mkdtemp L w) ''module_dir'') ''setup.py'')) \<and>
         stage_calls (snd (download_and_install L uri name False w)) =
           stage_calls w @
           [Call_s3_download uri (os_path_join (mkdtemp L w) ''tar_file''),
            Call_prepare (os_path_join (mkdtemp L w) ''module_dir'') name] \<and>
         spawned (snd (download_and_install L uri name False w)) = spawned w \<and>
         (\<forall>p. under (mkdtemp L w) p \<longrightarrow>
              files (snd (download_and_install L uri name False w)) p = None \<and>
              p \<notin> dirs (snd (download_and_install L uri name False w)))"
proof -
  let ?t = "mkdtemp L w"
  let ?m = "os_path_join ?t ''module_dir''"
  let ?s = "os_path_join ?m ''setup.py''"
  from download_and_install_s3 [OF assms(1,2), of name w]
  obtain w2 where w2: "download_and_install L uri name False w =
                 and_then (prepare L ?m name w2) (\<lambda>u w3. install L ?m w3)"
      "stage_calls w2 = stage_calls w @ [Call_s3_download uri (os_path_join ?t ''tar_file'')]"
      "spawned w2 = spawned w"
      "\<forall>p. under ?t p \<longrightarrow> files w2 p = None \<and> p \<notin> dirs w2"
    by blast
  have ns: "\<not> suffix ''/'' ?t"
    using assms(3,4) by (auto simp add: suffix_def)
  have m: "?m = ?t @ ''/module_dir''"
    using assms(3) ns by (simp add: os_path_join_def)
  have s: "os_path_join (?t @ ''/module_dir'') ''setup.py'' = ?t @ ''/module_dir/setup.py''"
    by (simp add: os_path_join_def suffix_to_prefix)
  have um: "under ?t ?m" "under ?t ?s"
    by (simp_all add: m s under_def)
  have absent: "\<not> os_path_exists w2 ?s"
    using w2(4) um(2) by (auto simp add: os_path_exists_def)
  have d: "os_path_dirname (os_path_join (?t @ ''/module_dir'') ''setup.py'') =
             ?t @ ''/module_dir''"
    by (rule os_path_dirname_join) simp_all
  have noparent: "\<not> parent_exists w2 ?s"
    using w2(4) um(1) by (simp add: parent_exists_def m d)
  show ?thesis
    using w2(2,3,4)
    by (simp add: w2(1) prepare_refused [OF absent noparent] and_then_simps stage_calls_emit
          spawned_emit emit_simps)
qed




lemma environ_setitem_simps:
  "trace (snd (environ_setitem k v w)) = trace w"
  "executable (snd (environ_setitem k v w)) = executable w"
  "files (snd (environ_setitem k v w)) = files w"
  "dirs (snd (environ_setitem k v w)) = dirs w"
  by (simp_all add: environ_setitem_def)















lemma snd_run:
  "executable w \<noteq> [] \<Longrightarrow>
     snd (run L module_name args env_vars wait w) =
       (let cmd = [executable w, ''-m'', module_name] @ (case args of None \<Rightarrow> [] | Some a \<Rightarrow> a);
            ev = (case env_vars of None \<Rightarrow> [] | Some e \<Rightarrow> e);
            env = log_script_invocation L cmd ev (environ w)
        in emit (Spawn \<lparr>p_args = cmd, p_cwd = None, p_env = env, returncode = None\<rparr>)
             ((emit (Log_script_invocation cmd ev) w)\<lparr>environ := env\<rparr>))"
  by (simp add: run_def python_executable_def and_then_simps Let_def snd_check_error
        make_process_def emit_simps)




lemma str_replace_absent:
  "old \<noteq> [] \<Longrightarrow> \<not> sublist old s \<Longrightarrow> str_replace s old new = s"
proof (induction s old new rule: str_replace.induct)
  case (1 old new)
  then show ?case by simp
next
  case (2 c cs old new)
  have np: "\<not> prefix old (c # cs)"
    using "2.prems"(2) by (auto dest: prefix_imp_sublist)
  have ns: "\<not> sublist old cs"
    using "2.prems"(2) by (auto simp add: sublist_Cons_right)
  show ?case
    using "2.prems"(1) np ns "2.IH"(2) by simp
qed

lemma str_replace_file_prefix:
  "\<not> sublist ''file://'' p \<Longrightarrow> str_replace (''file://'' @ p) ''file://'' [] = p"
  by (simp add: str_replace_absent)

subsection \<open>The concrete process, evaluated\<close>

lemma example_joins:
  "os_path_join ''/opt/ml/code'' ''requirements.txt'' = ''/opt/ml/code/requirements.txt''"
  "os_path_join ''/opt/ml/code'' ''setup.py'' = ''/opt/ml/code/setup.py''"
  "os_path_join ''/opt/ml/code'' ''setup.cfg'' = ''/opt/ml/code/setup.cfg''"
  "os_path_join ''/opt/ml/code'' ''MANIFEST.in'' = ''/opt/ml/code/MANIFEST.in''"
  "os_path_join ''/tmp/tmp0'' ''tar_file'' = ''/tmp/tmp0/tar_file''"
  "os_path_join ''/tmp/tmp0'' ''module_dir'' = ''/tmp/tmp0/module_dir''"
  by (simp_all add: os_path_join_def suffix_to_prefix)

lemma example_world_simps:
  "executable example_world = ''/usr/bin/python''"
  "environ example_world = [''PATH'' \<mapsto> ''/usr/bin'']"
  "files example_world = [''/opt/ml/code/my_test_script.py'' \<mapsto> ''def validate(): return True'']"
  "dirs example_world = {''/opt/ml/code''}"
  "trace example_world = []"
  by (simp_all add: example_world_def)

lemma example_lib_simps:
  "urlparse example_lib = example_urlparse"
  "shlex_split example_lib = split_spaces []"
  "dedent example_lib = (\<lambda>s. s)"
  "mkdtemp example_lib = (\<lambda>w. ''/tmp/tmp0'')"
  "importlib_import_module example_lib = example_import"
  "reload_module example_lib = (\<lambda>w m. Inr m)"
  "process_wait example_lib =
     (\<lambda>w p. if ''failing_script'' \<in> set (p_args p) then 3
            else if p_cwd p = Some ''/opt/ml/broken_package'' then 1 else 0)"
  "log_script_invocation example_lib =
     (\<lambda>cmd env_vars env. env(''CURRENT_HOST'' \<mapsto> ''algo-1'',
                             ''SAGEMAKER_JOB_NAME'' \<mapsto> ''training-job'',
                             ''SAGEMAKER_REGION'' \<mapsto> ''us-west-2''))"
  by (simp_all add: example_lib_def)

lemma example_commands:
  "split_spaces [] ''/usr/bin/python -m pip install -U . '' =
     [''/usr/bin/python'', ''-m'', ''pip'', ''install'', ''-U'', ''.'']"
  "split_spaces [] ''/usr/bin/python -m pip install -U . -r requirements.txt'' =
     [''/usr/bin/python'', ''-m'', ''pip'', ''install'', ''-U'', ''.'', ''-r'', ''requirements.txt'']"
  by simp_all

lemma mkdtemp_example: "mkdtemp example_lib w = ''/tmp/tmp0''"
  by (simp add: example_lib_def)

lemma example_exists:
  "exists example_lib ''numpy'' example_world = (Inr True, example_world)"
  "exists example_lib ''my_test_script'' example_world = (Inr False, example_world)"
  by (simp_all add: exists_def example_lib_simps example_import_def spawned_def example_world_simps)

lemma example_prepare_local:
  "fst (prepare example_lib ''/opt/ml/code'' name example_world) = Inr ()"
  "\<not> os_path_exists (snd (prepare example_lib ''/opt/ml/code'' name example_world))
      ''/opt/ml/code/requirements.txt''"
proof -
  have a: "\<not> os_path_exists example_world (os_path_join ''/opt/ml/code'' ''setup.py'')"
    by (simp add: example_joins os_path_exists_def example_world_simps)
  have d: "os_path_dirname (os_path_join ''/opt/ml/code'' ''setup.py'') = ''/opt/ml/code''"
    by (rule os_path_dirname_join) simp_all
  have b: "parent_exists example_world (os_path_join ''/opt/ml/code'' ''setup.py'')"
    by (simp add: parent_exists_def d example_world_simps)
  note t = prepare_absent [OF a b, of example_lib name]
  show "fst (prepare example_lib ''/opt/ml/code'' name example_world) = Inr ()"
    using t by simp
  show "\<not> os_path_exists (snd (prepare example_lib ''/opt/ml/code'' name example_world))
      ''/opt/ml/code/requirements.txt''"
    using t by (simp add: os_path_exists_def example_joins example_world_simps)
qed

lemma example_install_local_ok:
  "fst (download_and_install example_lib ''/opt/ml/code'' name False example_world) = Inr ()"
proof -
  have e: "str_replace ''/opt/ml/code'' ''file://'' [] = ''/opt/ml/code''"
    by simp
  have r: "\<not> os_path_exists (snd (prepare example_lib ''/opt/ml/code'' name example_world))
             ''/opt/ml/code/requirements.txt''"
    by (rule example_prepare_local(2))
  have x: "executable (snd (prepare example_lib ''/opt/ml/code'' name example_world)) \<noteq> []"
    by (simp add: prepare_stage example_world_simps)
  have "fst (install example_lib ''/opt/ml/code''
               (snd (prepare example_lib ''/opt/ml/code'' name example_world))) = Inr ()"
    using x r
    by (simp add: install_def python_executable_def check_error_def make_process_def
          and_then_simps Let_def emit_simps os_path_exists_emit example_joins example_lib_simps
          example_commands prepare_stage example_world_simps)
  then show ?thesis
    by (simp add: download_and_install_local e prepare_then_install example_prepare_local(1))
qed

lemma example_install_local:
  "download_and_install example_lib ''/opt/ml/code'' name False example_world =
     (Inr (), snd (download_and_install example_lib ''/opt/ml/code'' name False example_world))"
  using example_install_local_ok [of name] by (simp add: prod_eq_iff)

lemma example_import_after_install:
  "spawned w \<noteq> [] \<Longrightarrow> importlib_import_module example_lib w ''my_test_script'' = Inr (Module ''my_test_script'')"
  "importlib_import_module example_lib w ''broken_script'' = Inl (ValueError ''this script does not work'')"
  "importlib_import_module example_lib w ''exiting_script'' = Inl (SystemExit 2)"
  "reload_module example_lib w m = Inr m"
  by (simp_all add: example_lib_simps example_import_def)

lemma example_spawned_local:
  "spawned (snd (download_and_install example_lib ''/opt/ml/code'' name False example_world)) \<noteq> []"
proof -
  have e: "str_replace ''/opt/ml/code'' ''file://'' [] = ''/opt/ml/code''"
    by simp
  have "length (spawned (snd (download_and_install example_lib ''/opt/ml/code'' name False example_world))) =
          length (spawned example_world) + 1"
    by (simp add: download_and_install_local e prepare_then_install example_prepare_local(1)
          install_stage prepare_stage example_world_simps)
  then show ?thesis by auto
qed

section \<open>The properties of the specification\<close>

subsection \<open>C1: the cache, and the s3 branch that never installs\<close>

text \<open>
  C1. With \<open>cache\<close> set and \<open>exists name\<close> true, \<open>download_and_install\<close> enters no stage
  (\<open>download_and_install_hit\<close>), as the specification says. The other half, one full
  fetch, prepare and install when the module is not there or \<open>cache\<close> is not set, fails
  for an s3 uri: the source calls \<open>prepare\<close> and \<open>install\<close> after the
  \<^verbatim>\<open>with _files.tmpdir()\<close> block, when the directory that held the extracted archive has
  been removed. On \<^verbatim>\<open>s3://bucket/code.tar.gz\<close>, with \<open>my_test_script\<close> not importable
  yet, the archive is downloaded and \<open>prepare\<close> is entered on \<^verbatim>\<open>/tmp/tmp0/module_dir\<close>,
  which is there no more; its write of \<^verbatim>\<open>setup.py\<close> raises FileNotFoundError, \<open>install\<close>
  is not entered, no installer process is created and nothing of the archive is left.
  With \<open>cache\<close> not set the call does the same. (For every s3 uri:
  \<open>s3_install_not_entered\<close>.)
\<close>

theorem s3_uri_never_installs:
  "exists example_lib ''my_test_script'' example_world = (Inr False, example_world) \<and>
   fst (download_and_install example_lib ''s3://bucket/code.tar.gz'' ''my_test_script'' True
          example_world) =
     Inl (FileNotFoundError ''/tmp/tmp0/module_dir/setup.py'') \<and>
   stage_calls (snd (download_and_install example_lib ''s3://bucket/code.tar.gz''
                       ''my_test_script'' True example_world)) =
     [Call_s3_download ''s3://bucket/code.tar.gz'' ''/tmp/tmp0/tar_file'',
      Call_prepare ''/tmp/tmp0/module_dir'' ''my_test_script''] \<and>
   spawned (snd (download_and_install example_lib ''s3://bucket/code.tar.gz''
                   ''my_test_script'' True example_world)) = [] \<and>
   files (snd (download_and_install example_lib ''s3://bucket/code.tar.gz''
                 ''my_test_script'' True example_world))
     ''/tmp/tmp0/module_dir/my_test_script.py'' = None \<and>
   ''/tmp/tmp0/module_dir'' \<notin>
     dirs (snd (download_and_install example_lib ''s3://bucket/code.tar.gz''
                  ''my_test_script'' True example_world)) \<and>
   download_and_install example_lib ''s3://bucket/code.tar.gz'' ''my_test_script'' False
     example_world =
   download_and_install example_lib ''s3://bucket/code.tar.gz'' ''my_test_script'' True
     example_world"
proof -
  have e: "fst (exists example_lib ''my_test_script'' example_world) = Inr False"
    by (simp add: example_exists)
  have p: "prefix ''s3://'' ''s3://bucket/code.tar.gz''"
    by simp
  have u: "url_scheme (urlparse example_lib ''s3://bucket/code.tar.gz'') = ''s3''"
    by (simp add: example_lib_simps example_urlparse_def)
  have t: "mkdtemp example_lib example_world \<noteq> []"
      "last (mkdtemp example_lib example_world) \<noteq> CHR ''/''"
    by (simp_all add: mkdtemp_example)
  have s: "stage_calls example_world = []" "spawned example_world = []"
    by (simp_all add: stage_calls_def spawned_def example_world_simps)
  have j: "os_path_join ''/tmp/tmp0/module_dir'' ''setup.py'' = ''/tmp/tmp0/module_dir/setup.py''"
    by (simp add: os_path_join_def suffix_to_prefix)
  have un: "under ''/tmp/tmp0'' ''/tmp/tmp0/module_dir/my_test_script.py''"
      "under ''/tmp/tmp0'' ''/tmp/tmp0/module_dir''"
    by (simp_all add: under_def)
  note n = s3_install_not_entered [OF p u t, of "''my_test_script''", unfolded mkdtemp_example]
  have g: "files (snd (download_and_install example_lib ''s3://bucket/code.tar.gz''
                         ''my_test_script'' False example_world))
             ''/tmp/tmp0/module_dir/my_test_script.py'' = None"
      "''/tmp/tmp0/module_dir'' \<notin>
         dirs (snd (download_and_install example_lib ''s3://bucket/code.tar.gz''
                      ''my_test_script'' False example_world))"
    using n un by blast+
  show ?thesis
    using n g
    by (simp add: download_and_install_miss [OF e] example_exists example_joins j s)
qed

subsection \<open>C2: a scheme other than s3 is refused\<close>

text \<open>
  C2. For every url whose parsed scheme is not \<open>s3\<close>, \<open>s3_download\<close> raises: the error is
  the ValueError of the source (the specification calls it InvalidLocationError), it
  carries the scheme found, and nothing is downloaded or written.
\<close>

theorem s3_download_rejects_scheme:
  "url_scheme (urlparse L url) \<noteq> ''s3'' \<Longrightarrow>
     s3_download L url dst w =
       (Inl (ValueError (''Expecting 's3' scheme, got: '' @ url_scheme (urlparse L url)
                          @ '' in '' @ url_str L (urlparse L url))),
        emit (Call_s3_download url dst) w)"
  by (simp add: s3_download_def Let_def)

theorem s3_download_rejects_scheme_witness:
  "url_scheme (urlparse example_lib ''http://host/code.tar.gz'') \<noteq> ''s3'' \<and>
   fst (s3_download example_lib ''http://host/code.tar.gz'' ''/tmp/tar_file'' example_world) =
     Inl (ValueError ''Expecting 's3' scheme, got: http in http://host/code.tar.gz'') \<and>
   files (snd (s3_download example_lib ''http://host/code.tar.gz'' ''/tmp/tar_file'' example_world)) =
     files example_world"
proof -
  have h: "url_scheme (urlparse example_lib ''http://host/code.tar.gz'') \<noteq> ''s3''"
    by (simp add: example_lib_def example_urlparse_def)
  show ?thesis
    using h s3_download_rejects_scheme [OF h, of "''/tmp/tar_file''" example_world]
    by (simp add: example_lib_def example_urlparse_def emit_def)
qed

subsection \<open>C3: the environment of the child of \<open>run\<close>\<close>

text \<open>
  C3. \<open>run\<close> hands \<open>env_vars\<close> to the logging call and to nothing else. The child is
  created with \<^verbatim>\<open>env=os.environ\<close>, the environment of the process as the logging call
  leaves it, and the overlay is not merged on top of it. With the overlay \<open>FOO=bar\<close> and
  an ambient environment that has no \<open>FOO\<close>, the child of \<open>run\<close> gets no \<open>FOO\<close>; the
  specification, and the docstring of \<open>run\<close>, which has these variables written for the
  command, give it \<open>FOO=bar\<close>.
\<close>

theorem run_ignores_overlay:
  "spawned (snd (run example_lib ''my_test_script'' (Some [''--x'', ''1''])
                   (Some [(''FOO'', ''bar'')]) True example_world)) =
     [\<lparr>p_args = [''/usr/bin/python'', ''-m'', ''my_test_script'', ''--x'', ''1''], p_cwd = None,
       p_env = [''PATH'' \<mapsto> ''/usr/bin'', ''CURRENT_HOST'' \<mapsto> ''algo-1'',
                ''SAGEMAKER_JOB_NAME'' \<mapsto> ''training-job'',
                ''SAGEMAKER_REGION'' \<mapsto> ''us-west-2''],
       returncode = None\<rparr>] \<and>
   [''PATH'' \<mapsto> ''/usr/bin'', ''CURRENT_HOST'' \<mapsto> ''algo-1'',
    ''SAGEMAKER_JOB_NAME'' \<mapsto> ''training-job'', ''SAGEMAKER_REGION'' \<mapsto> ''us-west-2'']
     ''FOO'' = None \<and>
   (environ example_world ++ map_of [(''FOO'', ''bar'')]) ''FOO'' = Some ''bar''"
proof -
  have x: "executable example_world \<noteq> []"
    by (simp add: example_world_simps)
  have s: "spawned example_world = []"
    by (simp add: spawned_def example_world_simps)
  show ?thesis
    by (simp add: snd_run [OF x] Let_def spawned_emit spawned_environ_update s
          example_world_simps example_lib_simps)
qed

subsection \<open>C4: \<open>run_module\<close> writes the overlay into the ambient environment\<close>



subsection \<open>C5: the files \<open>prepare\<close> writes\<close>

text \<open>
  C5, as the code has it. When \<^verbatim>\<open>setup.py\<close> exists in the directory, \<open>prepare\<close> changes
  no file. When it does not and the directory exists, \<open>prepare\<close> writes exactly three
  files, \<^verbatim>\<open>setup.py\<close>, \<^verbatim>\<open>setup.cfg\<close> and \<^verbatim>\<open>MANIFEST.in\<close>: \<^verbatim>\<open>setup.py\<close> is always new,
  the other two are created when absent and replaced when present, so the new files are
  all three exactly when neither \<^verbatim>\<open>setup.cfg\<close> nor \<^verbatim>\<open>MANIFEST.in\<close> was there. When the
  directory itself does not exist, the write of \<^verbatim>\<open>setup.py\<close> is refused, \<open>prepare\<close>
  raises and no file is written. No other file changes in any case.
\<close>

theorem prepare_files:
  "(os_path_exists w (os_path_join path ''setup.py'') \<longrightarrow>
      fst (prepare L path name w) = Inr () \<and>
      files (snd (prepare L path name w)) = files w \<and>
      new_files w (snd (prepare L path name w)) = {}) \<and>
   (\<not> os_path_exists w (os_path_join path ''setup.py'') \<and>
    parent_exists w (os_path_join path ''setup.py'') \<longrightarrow>
      fst (prepare L path name w) = Inr () \<and>
      files (snd (prepare L path name w)) =
        (files w)(os_path_join path ''setup.py'' \<mapsto> dedent L (setup_py_template name),
                  os_path_join path ''setup.cfg'' \<mapsto> dedent L setup_cfg_template,
                  os_path_join path ''MANIFEST.in'' \<mapsto> dedent L manifest_template) \<and>
      new_files w (snd (prepare L path name w)) =
        {os_path_join path ''setup.py'', os_path_join path ''setup.cfg'',
         os_path_join path ''MANIFEST.in''} - dom (files w) \<and>
      os_path_join path ''setup.py'' \<in> new_files w (snd (prepare L path name w)) \<and>
      card {os_path_join path ''setup.py'', os_path_join path ''setup.cfg'',
            os_path_join path ''MANIFEST.in''} = 3 \<and>
      (os_path_join path ''setup.cfg'' \<notin> dom (files w) \<and>
       os_path_join path ''MANIFEST.in'' \<notin> dom (files w) \<longrightarrow>
         new_files w (snd (prepare L path name w)) =
           {os_path_join path ''setup.py'', os_path_join path ''setup.cfg'',
            os_path_join path ''MANIFEST.in''})) \<and>
   (\<not> os_path_exists w (os_path_join path ''setup.py'') \<and>
    \<not> parent_exists w (os_path_join path ''setup.py'') \<longrightarrow>
      fst (prepare L path name w) = Inl (FileNotFoundError (os_path_join path ''setup.py'')) \<and>
      files (snd (prepare L path name w)) = files w \<and>
      new_files w (snd (prepare L path name w)) = {}) \<and>
   (\<forall>p. p \<notin> {os_path_join path ''setup.py'', os_path_join path ''setup.cfg'',
               os_path_join path ''MANIFEST.in''} \<longrightarrow>
        files (snd (prepare L path name w)) p = files w p)"
proof (cases "os_path_exists w (os_path_join path ''setup.py'')")
  case True
  then show ?thesis
    by (simp add: prepare_present emit_simps new_files_def)
next
  case False
  have sp: "os_path_join path ''setup.py'' \<notin> dom (files w)"
    using False by (simp add: os_path_exists_def)
  show ?thesis
  proof (cases "parent_exists w (os_path_join path ''setup.py'')")
    case True
    show ?thesis
      using False True sp prepare_absent [OF False True, of L name]
      by (auto simp add: new_files_def prepare_paths_distinct)
  next
    case np: False
    show ?thesis
      using False np
      by (simp add: prepare_refused [OF False np] emit_simps new_files_def)
  qed
qed

theorem prepare_files_witness:
  "\<not> os_path_exists example_world (os_path_join ''/opt/ml/code'' ''setup.py'') \<and>
   parent_exists example_world (os_path_join ''/opt/ml/code'' ''setup.py'') \<and>
   ''/opt/ml/code/setup.cfg'' \<notin> dom (files example_world) \<and>
   ''/opt/ml/code/MANIFEST.in'' \<notin> dom (files example_world) \<and>
   fst (prepare example_lib ''/opt/ml/code'' ''my_test_script'' example_world) = Inr () \<and>
   new_files example_world (snd (prepare example_lib ''/opt/ml/code'' ''my_test_script'' example_world)) =
     {''/opt/ml/code/setup.py'', ''/opt/ml/code/setup.cfg'', ''/opt/ml/code/MANIFEST.in''} \<and>
   ''/opt/ml/code/my_test_script.py'' \<notin>
     {''/opt/ml/code/setup.py'', ''/opt/ml/code/setup.cfg'', ''/opt/ml/code/MANIFEST.in''} \<and>
   files (snd (prepare example_lib ''/opt/ml/code'' ''my_test_script'' example_world))
     ''/opt/ml/code/my_test_script.py'' = files example_world ''/opt/ml/code/my_test_script.py'' \<and>
   os_path_exists (put_file ''/opt/ml/code/setup.py'' ''from distutils.core import setup'' example_world)
     (os_path_join ''/opt/ml/code'' ''setup.py'') \<and>
   files (snd (prepare example_lib ''/opt/ml/code'' ''my_test_script''
                 (put_file ''/opt/ml/code/setup.py'' ''from distutils.core import setup'' example_world))) =
     files (put_file ''/opt/ml/code/setup.py'' ''from distutils.core import setup'' example_world) \<and>
   \<not> os_path_exists example_world (os_path_join ''/opt/ml/missing'' ''setup.py'') \<and>
   \<not> parent_exists example_world (os_path_join ''/opt/ml/missing'' ''setup.py'') \<and>
   fst (prepare example_lib ''/opt/ml/missing'' ''my_test_script'' example_world) =
     Inl (FileNotFoundError ''/opt/ml/missing/setup.py'') \<and>
   files (snd (prepare example_lib ''/opt/ml/missing'' ''my_test_script'' example_world)) =
     files example_world"
proof -
  let ?v = "put_file ''/opt/ml/code/setup.py'' ''from distutils.core import setup'' example_world"
  have j: "os_path_join ''/opt/ml/missing'' ''setup.py'' = ''/opt/ml/missing/setup.py''"
    by (simp add: os_path_join_def suffix_to_prefix)
  have d: "os_path_dirname ''/opt/ml/code/setup.py'' = ''/opt/ml/code''"
      "os_path_dirname ''/opt/ml/missing/setup.py'' = ''/opt/ml/missing''"
    using os_path_dirname_join [of "''/opt/ml/code''" "''setup.py''"]
      os_path_dirname_join [of "''/opt/ml/missing''" "''setup.py''"]
    by (simp_all add: example_joins j)
  have pe: "parent_exists example_world ''/opt/ml/code/setup.py''"
      "\<not> parent_exists example_world ''/opt/ml/missing/setup.py''"
    by (simp_all add: parent_exists_def d example_world_simps)
  have a: "\<not> os_path_exists example_world ''/opt/ml/code/setup.py''"
    "''/opt/ml/code/setup.cfg'' \<notin> dom (files example_world)"
    "''/opt/ml/code/MANIFEST.in'' \<notin> dom (files example_world)"
    by (simp_all add: os_path_exists_def example_world_simps)
  have a': "\<not> os_path_exists example_world ''/opt/ml/missing/setup.py''"
    by (simp add: os_path_exists_def example_world_simps)
  have b: "os_path_exists ?v ''/opt/ml/code/setup.py''"
    by (simp add: os_path_exists_def put_file_simps)
  have c: "''/opt/ml/code/my_test_script.py'' \<notin>
     {''/opt/ml/code/setup.py'', ''/opt/ml/code/setup.cfg'', ''/opt/ml/code/MANIFEST.in''}"
    by simp
  note t = prepare_files [of example_world "''/opt/ml/code''" example_lib "''my_test_script''",
      unfolded example_joins]
  have 1: "fst (prepare example_lib ''/opt/ml/code'' ''my_test_script'' example_world) = Inr ()"
    using t a(1) pe(1) by simp
  have 2: "new_files example_world (snd (prepare example_lib ''/opt/ml/code'' ''my_test_script'' example_world)) =
     {''/opt/ml/code/setup.py'', ''/opt/ml/code/setup.cfg'', ''/opt/ml/code/MANIFEST.in''}"
    using t a pe(1) by (simp add: example_world_simps os_path_exists_def)
  have q: "\<forall>p. p \<notin> {''/opt/ml/code/setup.py'', ''/opt/ml/code/setup.cfg'', ''/opt/ml/code/MANIFEST.in''} \<longrightarrow>
        files (snd (prepare example_lib ''/opt/ml/code'' ''my_test_script'' example_world)) p =
        files example_world p"
    using t by (rule conjunct2 [THEN conjunct2, THEN conjunct2])
  have 3: "files (snd (prepare example_lib ''/opt/ml/code'' ''my_test_script'' example_world))
     ''/opt/ml/code/my_test_script.py'' = files example_world ''/opt/ml/code/my_test_script.py''"
    using q [rule_format, OF c] .
  have 4: "files (snd (prepare example_lib ''/opt/ml/code'' ''my_test_script'' ?v)) = files ?v"
    using prepare_files [of ?v "''/opt/ml/code''" example_lib "''my_test_script''",
      unfolded example_joins] b by simp
  note m = prepare_files [of example_world "''/opt/ml/missing''" example_lib "''my_test_script''",
      unfolded j]
  have 5: "fst (prepare example_lib ''/opt/ml/missing'' ''my_test_script'' example_world) =
     Inl (FileNotFoundError ''/opt/ml/missing/setup.py'')"
    using m a' pe(2) by simp
  have 6: "files (snd (prepare example_lib ''/opt/ml/missing'' ''my_test_script'' example_world)) =
     files example_world"
    using m a' pe(2) by simp
  show ?thesis
    unfolding example_joins j
    by (intro conjI a a' b c pe 1 2 3 4 5 6)
qed

text \<open>C5 as the specification states it fails in a directory that has a \<^verbatim>\<open>setup.cfg\<close>
  and no \<^verbatim>\<open>setup.py\<close>: two files are new, and the \<^verbatim>\<open>setup.cfg\<close> that was there is
  replaced.\<close>

theorem prepare_three_new_files_counterexample:
  "\<not> os_path_exists (put_file ''/opt/ml/code/setup.cfg'' ''[metadata]'' example_world)
       (os_path_join ''/opt/ml/code'' ''setup.py'') \<and>
   new_files (put_file ''/opt/ml/code/setup.cfg'' ''[metadata]'' example_world)
     (snd (prepare example_lib ''/opt/ml/code'' ''my_test_script''
             (put_file ''/opt/ml/code/setup.cfg'' ''[metadata]'' example_world))) =
     {''/opt/ml/code/setup.py'', ''/opt/ml/code/MANIFEST.in''} \<and>
   card (new_files (put_file ''/opt/ml/code/setup.cfg'' ''[metadata]'' example_world)
     (snd (prepare example_lib ''/opt/ml/code'' ''my_test_script''
             (put_file ''/opt/ml/code/setup.cfg'' ''[metadata]'' example_world)))) = 2 \<and>
   files (put_file ''/opt/ml/code/setup.cfg'' ''[metadata]'' example_world)
     ''/opt/ml/code/setup.cfg'' = Some ''[metadata]'' \<and>
   files (snd (prepare example_lib ''/opt/ml/code'' ''my_test_script''
             (put_file ''/opt/ml/code/setup.cfg'' ''[metadata]'' example_world)))
     ''/opt/ml/code/setup.cfg'' = Some setup_cfg_template"
proof -
  let ?w = "put_file ''/opt/ml/code/setup.cfg'' ''[metadata]'' example_world"
  have a: "\<not> os_path_exists ?w (os_path_join ''/opt/ml/code'' ''setup.py'')"
    by (simp add: example_joins os_path_exists_def put_file_simps example_world_simps)
  have b: "parent_exists ?w (os_path_join ''/opt/ml/code'' ''setup.py'')"
    using os_path_dirname_join [of "''/opt/ml/code''" "''setup.py''"]
    by (simp add: parent_exists_def put_file_simps example_world_simps)
  have f: "files (snd (prepare example_lib ''/opt/ml/code'' ''my_test_script'' ?w)) =
      (files ?w)(''/opt/ml/code/setup.py'' \<mapsto> setup_py_template ''my_test_script'',
                 ''/opt/ml/code/setup.cfg'' \<mapsto> setup_cfg_template,
                 ''/opt/ml/code/MANIFEST.in'' \<mapsto> manifest_template)"
    using prepare_absent [OF a b, of example_lib "''my_test_script''"]
    by (simp add: example_joins example_lib_simps)
  have n: "new_files ?w (snd (prepare example_lib ''/opt/ml/code'' ''my_test_script'' ?w)) =
     {''/opt/ml/code/setup.py'', ''/opt/ml/code/MANIFEST.in''}"
    unfolding new_files_def f
    by (auto simp add: put_file_simps example_world_simps)
  show ?thesis
    using a n by (simp add: f put_file_simps)
qed

subsection \<open>C6: the requirements file in the installer's command\<close>

text \<open>
  C6. For every directory, \<open>install\<close> (when \<^verbatim>\<open>sys.executable\<close> is known, so that there is
  an installer invocation) creates one process, in that directory, whose command is the
  split of \<^verbatim>\<open><executable> -m pip install -U . \<close> followed by \<^verbatim>\<open>-r requirements.txt\<close> if
  and only if \<^verbatim>\<open>requirements.txt\<close> exists in the directory.
\<close>

theorem install_requirements:
  "executable w \<noteq> [] \<Longrightarrow>
     (let cmd = executable w @ '' -m pip install -U . '';
          req = os_path_exists w (os_path_join path ''requirements.txt'');
          cmdline = (if req then cmd @ ''-r requirements.txt'' else cmd)
      in spawned (snd (install L path w)) =
           spawned w @ [\<lparr>p_args = shlex_split L cmdline, p_cwd = Some path,
                          p_env = environ w, returncode = None\<rparr>] \<and>
         (suffix ''-r requirements.txt'' cmdline \<longleftrightarrow> req))"
  by (simp add: snd_install Let_def emit_simps spawned_emit requirements_suffix requirements_suffix_present)

theorem install_requirements_witness:
  "executable example_world \<noteq> [] \<and>
   \<not> os_path_exists example_world ''/opt/ml/code/requirements.txt'' \<and>
   spawned (snd (install example_lib ''/opt/ml/code'' example_world)) =
     [\<lparr>p_args = [''/usr/bin/python'', ''-m'', ''pip'', ''install'', ''-U'', ''.''],
       p_cwd = Some ''/opt/ml/code'', p_env = environ example_world, returncode = None\<rparr>] \<and>
   os_path_exists (put_file ''/opt/ml/code/requirements.txt'' ''pyfiglet'' example_world)
     ''/opt/ml/code/requirements.txt'' \<and>
   spawned (snd (install example_lib ''/opt/ml/code''
                   (put_file ''/opt/ml/code/requirements.txt'' ''pyfiglet'' example_world))) =
     [\<lparr>p_args = [''/usr/bin/python'', ''-m'', ''pip'', ''install'', ''-U'', ''.'', ''-r'',
                 ''requirements.txt''],
       p_cwd = Some ''/opt/ml/code'', p_env = environ example_world, returncode = None\<rparr>]"
proof -
  let ?w = "put_file ''/opt/ml/code/requirements.txt'' ''pyfiglet'' example_world"
  have x: "executable example_world \<noteq> []" "executable ?w \<noteq> []"
    by (simp_all add: example_world_simps put_file_simps)
  have a: "\<not> os_path_exists example_world ''/opt/ml/code/requirements.txt''"
    by (simp add: os_path_exists_def example_world_simps)
  have b: "os_path_exists ?w ''/opt/ml/code/requirements.txt''"
    by (simp add: os_path_exists_def put_file_simps)
  show ?thesis
    using x a b install_requirements [OF x(1), of "''/opt/ml/code''" example_lib]
      install_requirements [OF x(2), of "''/opt/ml/code''" example_lib]
    by (simp add: Let_def example_joins example_lib_simps example_commands example_world_simps
          put_file_simps spawned_def)
qed

subsection \<open>C7: the return code of a child that is waited for\<close>

text \<open>
  C7. \<open>check_error\<close> returns the process, with its return code 0, when the child exits
  with 0, and raises the given error class with the return code and the command joined
  by spaces when it does not; the error is raised if and only if the code is not 0. In
  \<open>run\<close> with \<open>wait\<close> set the class is ExecuteUserScriptError, in \<open>install\<close> it is
  InstallModuleError.
\<close>

theorem waited_child_exit_code:
  "check_error L cmd error_class cwd w =
     (let process = \<lparr>p_args = cmd, p_cwd = cwd, p_env = environ w, returncode = None\<rparr>;
          w1 = emit (Spawn process) w;
          return_code = process_wait L w1 process
      in (if return_code = 0 then Inr (process\<lparr>returncode := Some 0\<rparr>)
          else Inl (error_class return_code (str_join '' '' cmd)), w1)) \<and>
   (executable w \<noteq> [] \<longrightarrow>
     (let cmd = [executable w, ''-m'', module_name] @ (case args of None \<Rightarrow> [] | Some a \<Rightarrow> a);
          ev = (case env_vars of None \<Rightarrow> [] | Some e \<Rightarrow> e);
          env = log_script_invocation L cmd ev (environ w);
          process = \<lparr>p_args = cmd, p_cwd = None, p_env = env, returncode = None\<rparr>;
          w1 = emit (Spawn process) ((emit (Log_script_invocation cmd ev) w)\<lparr>environ := env\<rparr>);
          return_code = process_wait L w1 process
      in run L module_name args env_vars True w =
           (if return_code = 0 then Inr (process\<lparr>returncode := Some 0\<rparr>)
            else Inl (ExecuteUserScriptError return_code (str_join '' '' cmd)), w1))) \<and>
   (executable w \<noteq> [] \<longrightarrow>
     (let cmdline = executable w @ '' -m pip install -U . '' @
                      (if os_path_exists w (os_path_join path ''requirements.txt'')
                       then ''-r requirements.txt'' else []);
          cmd = shlex_split L cmdline;
          process = \<lparr>p_args = cmd, p_cwd = Some path, p_env = environ w, returncode = None\<rparr>;
          w1 = emit (Spawn process)
                 (emit (Logger_info (''Installing module with the following command:\<newline>'' @ cmdline))
                    (emit (Call_install path) w));
          return_code = process_wait L w1 process
      in install L path w =
           (if return_code = 0 then Inr ()
            else Inl (InstallModuleError return_code (str_join '' '' cmd)), w1)))"
  by (simp add: install_def run_def python_executable_def check_error_def make_process_def
        and_then_def Let_def emit_simps os_path_exists_emit)

theorem waited_child_exit_code_witness:
  "executable example_world \<noteq> [] \<and>
   fst (run example_lib ''my_test_script'' (Some [''--x'', ''1'']) (Some [(''FOO'', ''bar'')]) True
          example_world) =
     Inr \<lparr>p_args = [''/usr/bin/python'', ''-m'', ''my_test_script'', ''--x'', ''1''], p_cwd = None,
          p_env = log_script_invocation example_lib
                    [''/usr/bin/python'', ''-m'', ''my_test_script'', ''--x'', ''1'']
                    [(''FOO'', ''bar'')] (environ example_world),
          returncode = Some 0\<rparr> \<and>
   fst (run example_lib ''failing_script'' (Some [''--x'', ''1'']) (Some [(''FOO'', ''bar'')]) True
          example_world) =
     Inl (ExecuteUserScriptError 3 ''/usr/bin/python -m failing_script --x 1'') \<and>
   fst (install example_lib ''/opt/ml/code'' example_world) = Inr () \<and>
   fst (install example_lib ''/opt/ml/broken_package'' example_world) =
     Inl (InstallModuleError 1 ''/usr/bin/python -m pip install -U .'')"
proof -
  have x: "executable example_world \<noteq> []"
    by (simp add: example_world_simps)
  have j: "os_path_join ''/opt/ml/broken_package'' ''requirements.txt'' =
             ''/opt/ml/broken_package/requirements.txt''"
    by (simp add: os_path_join_def suffix_to_prefix)
  have r: "\<not> os_path_exists example_world ''/opt/ml/code/requirements.txt''"
      "\<not> os_path_exists example_world ''/opt/ml/broken_package/requirements.txt''"
    by (simp_all add: os_path_exists_def example_world_simps)
  show ?thesis
    using x r
      waited_child_exit_code [of example_lib "[]" "InstallModuleError" None example_world
          "''my_test_script''" "Some [''--x'', ''1'']" "Some [(''FOO'', ''bar'')]" "''/opt/ml/code''"]
      waited_child_exit_code [of example_lib "[]" "InstallModuleError" None example_world
          "''failing_script''" "Some [''--x'', ''1'']" "Some [(''FOO'', ''bar'')]"
          "''/opt/ml/broken_package''"]
    by (simp add: Let_def j example_joins example_lib_simps example_commands example_world_simps)
qed

subsection \<open>C8: what \<open>import_module\<close> does with a failing import\<close>

text \<open>
  C8, as the code has it. \<open>import_module\<close> calls \<open>download_and_install\<close> outside its
  \<^verbatim>\<open>try\<close>: what that call raises leaves \<open>import_module\<close> as it is, not wrapped. With
  \<open>cache\<close> set this includes the exception, other than an ImportError, that the module's
  own top-level code raises when \<open>exists\<close> imports it. Once \<open>download_and_install\<close> has
  returned, an exception of the import or of the reload that is an instance of
  \<open>Exception\<close> (the exceptions of the module's own top-level code among them) is raised
  again as ImportModuleError holding the original; an exception that derives from
  \<open>BaseException\<close> alone (SystemExit, KeyboardInterrupt) is not caught and leaves
  \<open>import_module\<close> as it is. When both steps succeed the imported module is returned.
\<close>

theorem import_module_wraps:
  "(\<forall>e. fst (download_and_install L uri name cache w) = Inl e \<longrightarrow>
      import_module L uri name cache w =
        (Inl e, snd (download_and_install L uri name cache w))) \<and>
   (\<forall>e. cache \<and> importlib_import_module L w name = Inl e \<and> \<not> is_ImportError e \<longrightarrow>
      import_module L uri name cache w = (Inl e, w)) \<and>
   (fst (download_and_install L uri name cache w) = Inr () \<longrightarrow>
      (let w1 = snd (download_and_install L uri name cache w)
       in (\<forall>e. importlib_import_module L w1 name = Inl e \<longrightarrow>
             import_module L uri name cache w =
               (Inl (if is_Exception e then ImportModuleError e else e), w1)) \<and>
          (\<forall>m e. importlib_import_module L w1 name = Inr m \<and> reload_module L w1 m = Inl e \<longrightarrow>
             import_module L uri name cache w =
               (Inl (if is_Exception e then ImportModuleError e else e), w1)) \<and>
          (\<forall>m m'. importlib_import_module L w1 name = Inr m \<and> reload_module L w1 m = Inr m' \<longrightarrow>
             import_module L uri name cache w = (Inr m, w1))))"
proof -
  obtain r w1 where d: "download_and_install L uri name cache w = (r, w1)"
    by (cases "download_and_install L uri name cache w")
  have a: "\<forall>e. fst (download_and_install L uri name cache w) = Inl e \<longrightarrow>
      import_module L uri name cache w =
        (Inl e, snd (download_and_install L uri name cache w))"
    by (simp add: import_module_def d and_then_simps)
  have b: "\<forall>e. cache \<and> importlib_import_module L w name = Inl e \<and> \<not> is_ImportError e \<longrightarrow>
      import_module L uri name cache w = (Inl e, w)"
  proof (intro allI impI)
    fix e
    assume h: "cache \<and> importlib_import_module L w name = Inl e \<and> \<not> is_ImportError e"
    then have "fst (exists L name w) = Inl e"
      by (simp add: exists_def)
    then have "download_and_install L uri name True w = (Inl e, w)"
      by (rule download_and_install_raise)
    then show "import_module L uri name cache w = (Inl e, w)"
      using h by (simp add: import_module_def and_then_simps)
  qed
  have c: "fst (download_and_install L uri name cache w) = Inr () \<longrightarrow>
      (let w1 = snd (download_and_install L uri name cache w)
       in (\<forall>e. importlib_import_module L w1 name = Inl e \<longrightarrow>
             import_module L uri name cache w =
               (Inl (if is_Exception e then ImportModuleError e else e), w1)) \<and>
          (\<forall>m e. importlib_import_module L w1 name = Inr m \<and> reload_module L w1 m = Inl e \<longrightarrow>
             import_module L uri name cache w =
               (Inl (if is_Exception e then ImportModuleError e else e), w1)) \<and>
          (\<forall>m m'. importlib_import_module L w1 name = Inr m \<and> reload_module L w1 m = Inr m' \<longrightarrow>
             import_module L uri name cache w = (Inr m, w1)))"
    by (auto simp add: import_module_def d and_then_simps)
  show ?thesis
    using a b c by (intro conjI)
qed

theorem import_module_wraps_witness:
  "fst (download_and_install example_lib ''/opt/ml/code'' ''broken_script'' False example_world) = Inr () \<and>
   fst (import_module example_lib ''/opt/ml/code'' ''broken_script'' False example_world) =
     Inl (ImportModuleError (ValueError ''this script does not work'')) \<and>
   fst (import_module example_lib ''/opt/ml/code'' ''my_test_script'' False example_world) =
     Inr (Module ''my_test_script'') \<and>
   importlib_import_module example_lib example_world ''broken_script'' =
     Inl (ValueError ''this script does not work'') \<and>
   \<not> is_ImportError (ValueError ''this script does not work'') \<and>
   fst (download_and_install example_lib ''/opt/ml/code'' ''broken_script'' True example_world) =
     Inl (ValueError ''this script does not work'') \<and>
   import_module example_lib ''/opt/ml/code'' ''broken_script'' True example_world =
     (Inl (ValueError ''this script does not work''), example_world)"
proof -
  have x: "fst (exists example_lib ''broken_script'' example_world) =
             Inl (ValueError ''this script does not work'')"
    by (simp add: exists_def example_import_after_install)
  have r: "download_and_install example_lib ''/opt/ml/code'' ''broken_script'' True
             example_world = (Inl (ValueError ''this script does not work''), example_world)"
    by (rule download_and_install_raise [OF x])
  show ?thesis
    using import_module_wraps [of example_lib "''/opt/ml/code''" "''broken_script''" False
        example_world]
      import_module_wraps [of example_lib "''/opt/ml/code''" "''my_test_script''" False
        example_world]
      import_module_wraps [of example_lib "''/opt/ml/code''" "''broken_script''" True
        example_world]
    by (simp add: r Let_def example_import_after_install example_spawned_local
          example_install_local_ok)
qed

text \<open>C8 as the specification states it fails twice. A module whose top-level code calls
  \<^verbatim>\<open>sys.exit(2)\<close> makes \<open>import_module\<close> raise SystemExit, not wrapped. And with
  \<open>cache\<close> set, the module whose top-level code raises ValueError makes it raise that
  ValueError, not wrapped, out of \<open>exists\<close>.\<close>

theorem import_module_unwrapped_counterexample:
  "fst (download_and_install example_lib ''/opt/ml/code'' ''exiting_script'' False example_world) = Inr () \<and>
   importlib_import_module example_lib
     (snd (download_and_install example_lib ''/opt/ml/code'' ''exiting_script'' False example_world))
     ''exiting_script'' = Inl (SystemExit 2) \<and>
   fst (import_module example_lib ''/opt/ml/code'' ''exiting_script'' False example_world) =
     Inl (SystemExit 2) \<and>
   importlib_import_module example_lib example_world ''broken_script'' =
     Inl (ValueError ''this script does not work'') \<and>
   fst (import_module example_lib ''/opt/ml/code'' ''broken_script'' True example_world) =
     Inl (ValueError ''this script does not work'')"
proof -
  have 1: "import_module example_lib ''/opt/ml/code'' ''exiting_script'' False example_world =
      (Inl (SystemExit 2),
       snd (download_and_install example_lib ''/opt/ml/code'' ''exiting_script'' False example_world))"
    by (subst import_module_def, subst example_install_local)
       (simp add: and_then_simps example_import_after_install)
  have x: "fst (exists example_lib ''broken_script'' example_world) =
             Inl (ValueError ''this script does not work'')"
    by (simp add: exists_def example_import_after_install)
  have 2: "import_module example_lib ''/opt/ml/code'' ''broken_script'' True example_world =
      (Inl (ValueError ''this script does not work''), example_world)"
    by (simp add: import_module_def download_and_install_raise [OF x] and_then_simps)
  show ?thesis
    by (simp add: 1 2 example_import_after_install example_install_local_ok)
qed

subsection \<open>C9: the local uri\<close>

text \<open>
  C9. The source resolves a uri that does not start with \<^verbatim>\<open>s3://\<close> by
  \<^verbatim>\<open>uri.replace('file://', '')\<close>, which removes every occurrence of \<^verbatim>\<open>file://\<close> and
  not only a leading one. On the local path \<^verbatim>\<open>/opt/ml/file://code\<close> the stages are run
  on \<^verbatim>\<open>/opt/ml/code\<close>, a different path; the specification has the path returned
  unchanged. (A uri in which \<^verbatim>\<open>file://\<close> occurs at most as the prefix is resolved as the
  specification says: \<open>str_replace_absent\<close>, \<open>str_replace_file_prefix\<close>.)
\<close>

theorem local_uri_replace_all:
  "\<not> prefix ''s3://'' ''/opt/ml/file://code'' \<and>
   str_replace ''/opt/ml/file://code'' ''file://'' [] = ''/opt/ml/code'' \<and>
   str_replace ''file:///opt/ml/file://code'' ''file://'' [] = ''/opt/ml/code'' \<and>
   stage_calls (snd (download_and_install example_lib ''/opt/ml/file://code'' ''my_test_script''
                       False example_world)) =
     [Call_prepare ''/opt/ml/code'' ''my_test_script'', Call_install ''/opt/ml/code'']"
proof -
  have p: "\<not> prefix ''s3://'' ''/opt/ml/file://code''"
    by simp
  have r: "str_replace ''/opt/ml/file://code'' ''file://'' [] = ''/opt/ml/code''"
      "str_replace ''file:///opt/ml/file://code'' ''file://'' [] = ''/opt/ml/code''"
    by simp_all
  have t: "stage_calls example_world = []"
    by (simp add: stage_calls_def example_world_simps)
  show ?thesis
    using p r t
    by (simp add: download_and_install_local prepare_then_install example_prepare_local(1)
          install_stage prepare_stage)
qed

subsection \<open>C10: what \<open>exists\<close> treats as "not installed"\<close>

text \<open>
  C10. \<open>exists name\<close> returns False exactly when the import raises an ImportError (the
  class or a subclass). Any other exception of the import, such as one raised by the
  module's own top-level code, leaves \<open>exists\<close> as it is, and with it
  \<open>download_and_install\<close> when \<open>cache\<close> is set; no stage is entered then.
\<close>

theorem exists_false_only_on_ImportError:
  "(fst (exists L name w) = Inr False \<longleftrightarrow>
      (\<exists>e. importlib_import_module L w name = Inl e \<and> is_ImportError e)) \<and>
   (\<forall>e. importlib_import_module L w name = Inl e \<and> \<not> is_ImportError e \<longrightarrow>
      exists L name w = (Inl e, w) \<and>
      download_and_install L uri name True w = (Inl e, w))"
  by (auto simp add: exists_def download_and_install_def and_then_def split: sum.splits)

theorem exists_false_only_on_ImportError_witness:
  "importlib_import_module example_lib example_world ''broken_script'' =
     Inl (ValueError ''this script does not work'') \<and>
   \<not> is_ImportError (ValueError ''this script does not work'') \<and>
   exists example_lib ''broken_script'' example_world =
     (Inl (ValueError ''this script does not work''), example_world) \<and>
   download_and_install example_lib ''/opt/ml/code'' ''broken_script'' True example_world =
     (Inl (ValueError ''this script does not work''), example_world) \<and>
   fst (exists example_lib ''my_test_script'' example_world) = Inr False"
  using exists_false_only_on_ImportError [of example_lib "''broken_script''" example_world "''/opt/ml/code''"]
    exists_false_only_on_ImportError [of example_lib "''my_test_script''" example_world "''/opt/ml/code''"]
  by (simp add: example_lib_def example_import_def example_world_def spawned_def)

end
